theory Spec2Isabelle
  imports Main
begin

section \<open>Python values and exceptions\<close>

text \<open>
  The exceptions that the modelled code can raise, itself or through the library
  calls it makes.  \<open>KeyError\<close> carries the key it was raised with
  (\<^verbatim>\<open>raise KeyError(key)\<close>).
\<close>

datatype 'k pyerr = TypeError | KeyError 'k | UnicodeEncodeError | PicklingError

text \<open>
  An object handed to a constructor.  Keys have type \<open>'k\<close>, values type \<open>'v\<close>;
  a callable is a zero-argument producer that runs in a world \<open>'w\<close> (whatever
  the call may read or change outside the container) and returns its value with
  the next world.
  \<^item> \<open>PyNone\<close> is \<^verbatim>\<open>None\<close>;
  \<^item> \<open>PyCallable f\<close> is a callable object that cannot be iterated: a function,
    a lambda, a type such as \<^verbatim>\<open>list\<close>;
  \<^item> \<open>PyMapping ps\<close> is a mapping, or an iterable of key/value pairs, that is not
    callable; \<open>ps\<close> are its pairs in iteration order;
  \<^item> \<open>PyOther\<close> is any other object, neither callable nor an iterable of
    pairs, such as an integer.
\<close>

datatype ('k, 'v, 'w) pyobj =
    PyNone
  | PyCallable "'w \<Rightarrow> 'v \<times> 'w"
  | PyMapping "('k \<times> 'v) list"
  | PyOther

fun is_None :: "('k, 'v, 'w) pyobj \<Rightarrow> bool" where
  "is_None PyNone = True"
| "is_None _ = False"

text \<open>\<^verbatim>\<open>isinstance(x, Callable)\<close>\<close>

fun isinstance_Callable :: "('k, 'v, 'w) pyobj \<Rightarrow> bool" where
  "isinstance_Callable (PyCallable f) = True"
| "isinstance_Callable _ = False"

section \<open>\<open>collections.OrderedDict\<close>\<close>

text \<open>
  The base class is the standard library's.  An ordered dictionary is the list of
  its items in iteration order; the operations below are the ones the subclass
  inherits or calls.

  \<^verbatim>\<open>od[key] = value\<close>: a key already present keeps its position and gets the new
  value, a new key goes to the end.
\<close>

fun OrderedDict_setitem :: "('k \<times> 'v) list \<Rightarrow> 'k \<Rightarrow> 'v \<Rightarrow> ('k \<times> 'v) list" where
  "OrderedDict_setitem [] key v = [(key, v)]"
| "OrderedDict_setitem ((k, x) # ps) key v =
     (if k = key then (k, v) # ps else (k, x) # OrderedDict_setitem ps key v)"

text \<open>\<^verbatim>\<open>od[key]\<close>: the value, or \<^verbatim>\<open>KeyError(key)\<close>.\<close>

fun OrderedDict_getitem :: "('k \<times> 'v) list \<Rightarrow> 'k \<Rightarrow> 'k pyerr + 'v" where
  "OrderedDict_getitem [] key = Inl (KeyError key)"
| "OrderedDict_getitem ((k, x) # ps) key =
     (if k = key then Inr x else OrderedDict_getitem ps key)"

text \<open>\<^verbatim>\<open>od.update(pairs)\<close>: one \<^verbatim>\<open>od[k] = v\<close> per pair, in order.\<close>

fun OrderedDict_update :: "('k \<times> 'v) list \<Rightarrow> ('k \<times> 'v) list \<Rightarrow> ('k \<times> 'v) list" where
  "OrderedDict_update od [] = od"
| "OrderedDict_update od ((k, v) # ps) = OrderedDict_update (OrderedDict_setitem od k v) ps"

text \<open>
  \<^verbatim>\<open>OrderedDict.__init__(self, *args, **kwargs)\<close> on a new object: at most one
  positional argument, which must be a mapping or an iterable of pairs; then the
  keyword arguments.  Anything else is a \<^verbatim>\<open>TypeError\<close>.
\<close>

fun OrderedDict_init ::
  "('k, 'v, 'w) pyobj list \<Rightarrow> ('k \<times> 'v) list \<Rightarrow> 'k pyerr + ('k \<times> 'v) list" where
  "OrderedDict_init [] kwargs = Inr (OrderedDict_update [] kwargs)"
| "OrderedDict_init [PyMapping ps] kwargs =
     Inr (OrderedDict_update (OrderedDict_update [] ps) kwargs)"
| "OrderedDict_init [other] kwargs = Inl TypeError"
| "OrderedDict_init (a # b # rest) kwargs = Inl TypeError"

section \<open>\<open>DefaultOrderedDict\<close>\<close>

text \<open>
  \<^verbatim>\<open>class DefaultOrderedDict(OrderedDict)\<close>: the inherited items and the attribute
  \<^verbatim>\<open>_default_factory\<close>, which is \<^verbatim>\<open>None\<close> or a callable.
\<close>

record ('k, 'v, 'w) DefaultOrderedDict =
  items :: "('k \<times> 'v) list"
  default_factory :: "('w \<Rightarrow> 'v \<times> 'w) option"

text \<open>The keys in iteration order (\<^verbatim>\<open>list(self)\<close>).\<close>

definition keys :: "('k, 'v, 'w) DefaultOrderedDict \<Rightarrow> 'k list" where
  "keys self = map fst (items self)"

text \<open>The object as an argument of another call.\<close>

fun factory_obj :: "('w \<Rightarrow> 'v \<times> 'w) option \<Rightarrow> ('k, 'v, 'w) pyobj" where
  "factory_obj None = PyNone"
| "factory_obj (Some f) = PyCallable f"

fun obj_factory :: "('k, 'v, 'w) pyobj \<Rightarrow> ('w \<Rightarrow> 'v \<times> 'w) option" where
  "obj_factory (PyCallable f) = Some f"
| "obj_factory _ = None"

text \<open>
  \<^verbatim>\<open>def __init__(self, *args, default_factory=None, **kwargs)\<close>.  The factory is
  keyword-only: every positional argument goes to \<^verbatim>\<open>OrderedDict.__init__\<close>.
\<close>

definition DefaultOrderedDict_init ::
  "('k, 'v, 'w) pyobj list \<Rightarrow> ('k, 'v, 'w) pyobj \<Rightarrow> ('k \<times> 'v) list
     \<Rightarrow> 'k pyerr + ('k, 'v, 'w) DefaultOrderedDict" where
  "DefaultOrderedDict_init args factory kwargs =
     (if \<not> is_None factory \<and> \<not> isinstance_Callable factory then Inl TypeError
      else case OrderedDict_init args kwargs of
             Inl e \<Rightarrow> Inl e
           | Inr ps \<Rightarrow> Inr \<lparr>items = ps, default_factory = obj_factory factory\<rparr>)"

text \<open>\<^verbatim>\<open>self[key] = value\<close>, inherited.\<close>

definition DefaultOrderedDict_setitem ::
  "('k, 'v, 'w) DefaultOrderedDict \<Rightarrow> 'k \<Rightarrow> 'v \<Rightarrow> ('k, 'v, 'w) DefaultOrderedDict" where
  "DefaultOrderedDict_setitem self key v = self\<lparr>items := OrderedDict_setitem (items self) key v\<rparr>"

text \<open>
  \<^verbatim>\<open>__missing__\<close> and \<^verbatim>\<open>__getitem__\<close> return the outcome of the lookup, the
  container after it and the world after it.
\<close>

definition DefaultOrderedDict_missing ::
  "('k, 'v, 'w) DefaultOrderedDict \<Rightarrow> 'k \<Rightarrow> 'w
     \<Rightarrow> ('k pyerr + 'v) \<times> ('k, 'v, 'w) DefaultOrderedDict \<times> 'w" where
  "DefaultOrderedDict_missing self key w =
     (case default_factory self of
        None \<Rightarrow> (Inl (KeyError key), self, w)
      | Some f \<Rightarrow> (case f w of (v, w') \<Rightarrow> (Inr v, DefaultOrderedDict_setitem self key v, w')))"

definition DefaultOrderedDict_getitem ::
  "('k, 'v, 'w) DefaultOrderedDict \<Rightarrow> 'k \<Rightarrow> 'w
     \<Rightarrow> ('k pyerr + 'v) \<times> ('k, 'v, 'w) DefaultOrderedDict \<times> 'w" where
  "DefaultOrderedDict_getitem self key w =
     (case OrderedDict_getitem (items self) key of
        Inr v \<Rightarrow> (Inr v, self, w)
      | Inl (KeyError k) \<Rightarrow> DefaultOrderedDict_missing self key w
      | Inl e \<Rightarrow> (Inl e, self, w))"

text \<open>
  \<^verbatim>\<open>__copy__\<close> is \<^verbatim>\<open>type(self)(self._default_factory, self)\<close>: the factory and the
  container itself, both positional; \<^verbatim>\<open>copy\<close> calls it.
\<close>

definition DefaultOrderedDict_dunder_copy ::
  "('k, 'v, 'w) DefaultOrderedDict \<Rightarrow> 'k pyerr + ('k, 'v, 'w) DefaultOrderedDict" where
  "DefaultOrderedDict_dunder_copy self =
     DefaultOrderedDict_init [factory_obj (default_factory self), PyMapping (items self)] PyNone []"

definition DefaultOrderedDict_copy ::
  "('k, 'v, 'w) DefaultOrderedDict \<Rightarrow> 'k pyerr + ('k, 'v, 'w) DefaultOrderedDict" where
  "DefaultOrderedDict_copy self = DefaultOrderedDict_dunder_copy self"

text \<open>
  \<^verbatim>\<open>__reduce__\<close> returns \<^verbatim>\<open>(type(self), args, None, None, self.items())\<close>.  The
  class is fixed and the state and list items are \<^verbatim>\<open>None\<close>, so the value kept
  here is the pair of \<^verbatim>\<open>args\<close> and the fifth element.  The fifth element is
  \<^verbatim>\<open>self.items()\<close>, a view of the items and not an iterator over them; the
  pickle protocol asks for an iterator, so the kind is kept with the pairs.
\<close>

datatype ('k, 'v) dictitems = ItemsView "('k \<times> 'v) list" | ItemsIterator "('k \<times> 'v) list"

fun pairs :: "('k, 'v) dictitems \<Rightarrow> ('k \<times> 'v) list" where
  "pairs (ItemsView ps) = ps"
| "pairs (ItemsIterator ps) = ps"

definition DefaultOrderedDict_reduce ::
  "('k, 'v, 'w) DefaultOrderedDict \<Rightarrow> ('k, 'v, 'w) pyobj list \<times> ('k, 'v) dictitems" where
  "DefaultOrderedDict_reduce self =
     ((case default_factory self of None \<Rightarrow> [] | Some f \<Rightarrow> [PyCallable f]),
      ItemsView (items self))"

text \<open>
  What unpickling does with such a value: it calls the class on \<^verbatim>\<open>args\<close> (no
  keyword argument, so \<^verbatim>\<open>default_factory\<close> keeps its default \<^verbatim>\<open>None\<close>) and
  then stores each dictionary item with \<^verbatim>\<open>obj[key] = value\<close>.
\<close>

fun store_items ::
  "('k, 'v, 'w) DefaultOrderedDict \<Rightarrow> ('k \<times> 'v) list \<Rightarrow> ('k, 'v, 'w) DefaultOrderedDict" where
  "store_items obj [] = obj"
| "store_items obj ((k, v) # ps) = store_items (DefaultOrderedDict_setitem obj k v) ps"

definition reconstruct ::
  "('k, 'v, 'w) pyobj list \<times> ('k, 'v) dictitems
     \<Rightarrow> 'k pyerr + ('k, 'v, 'w) DefaultOrderedDict" where
  "reconstruct rv =
     (case DefaultOrderedDict_init (fst rv) PyNone [] of
        Inl e \<Rightarrow> Inl e
      | Inr obj \<Rightarrow> Inr (store_items obj (pairs (snd rv))))"

text \<open>
  What pickling does before that.  \<^verbatim>\<open>pickle.dumps\<close> uses the C pickler when the
  interpreter has it, which is the default; it checks that the fifth element is
  an iterator and raises \<^verbatim>\<open>PicklingError\<close> otherwise.  The pickler written in
  Python (\<^verbatim>\<open>pickle._Pickler\<close>) calls \<^verbatim>\<open>iter\<close> on the element and so takes a
  view as well.  Pickling the factory and the items themselves is taken to
  succeed.
\<close>

datatype pickler = C_Pickler | Python_Pickler

fun dumps ::
  "pickler \<Rightarrow> ('k, 'v, 'w) DefaultOrderedDict
     \<Rightarrow> 'k pyerr + ('k, 'v, 'w) pyobj list \<times> ('k, 'v) dictitems" where
  "dumps C_Pickler self =
     (case snd (DefaultOrderedDict_reduce self) of
        ItemsView ps \<Rightarrow> Inl PicklingError
      | ItemsIterator ps \<Rightarrow> Inr (DefaultOrderedDict_reduce self))"
| "dumps Python_Pickler self = Inr (DefaultOrderedDict_reduce self)"

text \<open>\<^verbatim>\<open>pickle.loads(pickle.dumps(self))\<close>\<close>

definition pickle_roundtrip ::
  "pickler \<Rightarrow> ('k, 'v, 'w) DefaultOrderedDict \<Rightarrow> 'k pyerr + ('k, 'v, 'w) DefaultOrderedDict" where
  "pickle_roundtrip pk self =
     (case dumps pk self of
        Inl e \<Rightarrow> Inl e
      | Inr rv \<Rightarrow> reconstruct rv)"

subsection \<open>Sequences of operations\<close>

text \<open>
  \<^verbatim>\<open>d[k] = v\<close> and \<^verbatim>\<open>d[k]\<close>.  A lookup that raises leaves the container as it
  was, and the caller goes on with the next operation.
\<close>

datatype ('k, 'v) operation = SetItem 'k 'v | GetItem 'k

fun step ::
  "('k, 'v) operation \<Rightarrow> ('k, 'v, 'w) DefaultOrderedDict \<times> 'w
     \<Rightarrow> ('k, 'v, 'w) DefaultOrderedDict \<times> 'w" where
  "step (SetItem k v) (d, w) = (DefaultOrderedDict_setitem d k v, w)"
| "step (GetItem k) (d, w) = snd (DefaultOrderedDict_getitem d k w)"

definition run ::
  "('k, 'v) operation list \<Rightarrow> ('k, 'v, 'w) DefaultOrderedDict \<Rightarrow> 'w
     \<Rightarrow> ('k, 'v, 'w) DefaultOrderedDict \<times> 'w" where
  "run ops d w = fold step ops (d, w)"

text \<open>
  The specification's side of order preservation.  \<open>first_insertion_order\<close> lists
  keys in the order in which each one first appears.  \<open>inserting\<close> gives the key
  that an operation puts into the container: an assignment always does, a lookup
  only when there is a factory to fill the key in.
\<close>

fun place :: "'k \<Rightarrow> 'k list \<Rightarrow> 'k list" where
  "place k seen = (if k \<in> set seen then seen else seen @ [k])"

definition first_insertion_order :: "'k list \<Rightarrow> 'k list" where
  "first_insertion_order ks = fold place ks []"

fun inserting :: "bool \<Rightarrow> ('k, 'v) operation \<Rightarrow> 'k list" where
  "inserting has_factory (SetItem k v) = [k]"
| "inserting has_factory (GetItem k) = (if has_factory then [k] else [])"

section \<open>\<open>USBRipError\<close>\<close>

text \<open>
  The values an error mapping holds: the defaults are the integer \<open>0\<close> and the
  empty string, a caller may store anything.
\<close>

datatype 'a pyval = PyInt int | PyStr string | PyObject 'a

text \<open>A plain \<^verbatim>\<open>dict\<close> as its items in insertion order, with its two methods used here.\<close>

fun dict_getitem :: "('k \<times> 'v) list \<Rightarrow> 'k \<Rightarrow> 'k pyerr + 'v" where
  "dict_getitem [] key = Inl (KeyError key)"
| "dict_getitem ((k, x) # ps) key = (if k = key then Inr x else dict_getitem ps key)"

fun dict_setdefault :: "('k \<times> 'v) list \<Rightarrow> 'k \<Rightarrow> 'v \<Rightarrow> ('k \<times> 'v) list" where
  "dict_setdefault [] key v = [(key, v)]"
| "dict_setdefault ((k, x) # ps) key v =
     (if k = key then (k, x) # ps else (k, x) # dict_setdefault ps key v)"

record 'a USBRipError =
  message :: string
  errors :: "(string \<times> 'a pyval) list"

text \<open>
  \<^verbatim>\<open>def __init__(self, message, *, errors=None)\<close>.  \<^verbatim>\<open>not errors\<close> holds for
  \<^verbatim>\<open>None\<close> and for an empty mapping.
\<close>

definition USBRipError_init ::
  "string \<Rightarrow> (string \<times> 'a pyval) list option \<Rightarrow> 'a USBRipError" where
  "USBRipError_init msg errs =
     (let errs1 = (case errs of None \<Rightarrow> [] | Some m \<Rightarrow> (if m = [] then [] else m));
          errs2 = dict_setdefault errs1 ''errcode'' (PyInt 0);
          errs3 = dict_setdefault errs2 ''initial_error'' (PyStr [])
      in \<lparr>message = msg, errors = errs3\<rparr>)"

section \<open>Messages\<close>

text \<open>
  The process as the reporting functions see it: the three flags of
  \<^verbatim>\<open>lib.core.config\<close>, whether the environment variable
  \<^verbatim>\<open>ANSI_COLORS_DISABLED\<close> is set (termcolor reads it), and the lines written to
  the console so far, oldest first, each with the stream it went to.
\<close>

datatype stream = Stdout | Stderr

record process =
  QUIET :: bool
  DEBUG :: bool
  ISATTY :: bool
  ANSI_COLORS_DISABLED :: bool
  console :: "(stream \<times> string) list"

text \<open>
  What the console can take: \<open>enc f text\<close> holds when the stream \<open>f\<close> can encode
  \<open>text\<close>.  A stream with strict error handling, as standard output has by
  default, raises \<^verbatim>\<open>UnicodeEncodeError\<close> on a text outside its encoding and
  writes nothing of it.
\<close>

type_synonym encoder = "stream \<Rightarrow> string \<Rightarrow> bool"

text \<open>A console that can encode every text, such as a UTF-8 terminal.\<close>

definition any_text :: encoder where
  "any_text f text = True"


text \<open>
  \<^verbatim>\<open>print(text, file=f)\<close>: one line, or the exception of the write.  Like every
  call below it returns how it ended (\<open>Inr ()\<close> is a normal return) and the
  process after it.
\<close>

definition py_print ::
  "encoder \<Rightarrow> stream \<Rightarrow> string \<Rightarrow> process \<Rightarrow> (string pyerr + unit) \<times> process" where
  "py_print enc f text p =
     (if enc f text then (Inr (), p\<lparr>console := console p @ [(f, text)]\<rparr>)
      else (Inl UnicodeEncodeError, p))"

text \<open>
  One statement after another: the second runs, from where the first left the
  process, only when the first returned.
\<close>

definition then_run ::
  "(string pyerr + unit) \<times> process \<Rightarrow> (process \<Rightarrow> (string pyerr + unit) \<times> process)
     \<Rightarrow> (string pyerr + unit) \<times> process" where
  "then_run r k = (case r of (Inl e, p) \<Rightarrow> (Inl e, p) | (Inr u, p) \<Rightarrow> k p)"

text \<open>\<^verbatim>\<open>'{}'.format(n)\<close> for an integer: decimal digits, a minus sign when negative.\<close>

definition digit :: "nat \<Rightarrow> char" where
  "digit n = ''0123456789'' ! n"

fun str_nat :: "nat \<Rightarrow> string" where
  "str_nat n = (if n < 10 then [digit n] else str_nat (n div 10) @ [digit (n mod 10)])"

declare str_nat.simps [simp del]

definition str_int :: "int \<Rightarrow> string" where
  "str_int i = (if i < 0 then ''-'' @ str_nat (nat (- i)) else str_nat (nat i))"

subsection \<open>termcolor\<close>

text \<open>
  \<^verbatim>\<open>colored\<close> and \<^verbatim>\<open>cprint\<close> of the third-party module termcolor, release 1.1.0:
  each style name is looked up in a table (an unknown name is a \<^verbatim>\<open>KeyError\<close>)
  and its code is put in front of the text as an escape sequence.
\<close>

definition ATTRIBUTES :: "(string \<times> nat) list" where
  "ATTRIBUTES = [(''bold'', 1), (''dark'', 2), (''underline'', 4), (''blink'', 5),
                 (''reverse'', 7), (''concealed'', 8)]"

definition HIGHLIGHTS :: "(string \<times> nat) list" where
  "HIGHLIGHTS = [(''on_grey'', 40), (''on_red'', 41), (''on_green'', 42), (''on_yellow'', 43),
                 (''on_blue'', 44), (''on_magenta'', 45), (''on_cyan'', 46), (''on_white'', 47)]"

definition COLORS :: "(string \<times> nat) list" where
  "COLORS = [(''grey'', 30), (''red'', 31), (''green'', 32), (''yellow'', 33),
             (''blue'', 34), (''magenta'', 35), (''cyan'', 36), (''white'', 37)]"

definition RESET :: string where
  "RESET = CHR 0x1B # ''[0m''"

text \<open>\<^verbatim>\<open>'\033[%dm%s' % (code, text)\<close>\<close>

definition fmt_str :: "nat \<Rightarrow> string \<Rightarrow> string" where
  "fmt_str code text = CHR 0x1B # ''['' @ str_nat code @ ''m'' @ text"

fun with_code :: "(string \<times> nat) list \<Rightarrow> string option \<Rightarrow> string \<Rightarrow> string pyerr + string" where
  "with_code table None text = Inr text"
| "with_code table (Some name) text =
     (case dict_getitem table name of
        Inl e \<Rightarrow> Inl e
      | Inr code \<Rightarrow> Inr (fmt_str code text))"

fun with_attrs :: "string list \<Rightarrow> string \<Rightarrow> string pyerr + string" where
  "with_attrs [] text = Inr text"
| "with_attrs (attr # rest) text =
     (case dict_getitem ATTRIBUTES attr of
        Inl e \<Rightarrow> Inl e
      | Inr code \<Rightarrow> with_attrs rest (fmt_str code text))"

definition colored ::
  "bool \<Rightarrow> string \<Rightarrow> string option \<Rightarrow> string option \<Rightarrow> string list option
     \<Rightarrow> string pyerr + string" where
  "colored disabled text color on_color attrs =
     (if \<not> disabled then
        (case with_code COLORS color text of
           Inl e \<Rightarrow> Inl e
         | Inr t1 \<Rightarrow>
        (case with_code HIGHLIGHTS on_color t1 of
           Inl e \<Rightarrow> Inl e
         | Inr t2 \<Rightarrow>
        (case (case attrs of None \<Rightarrow> Inr t2 | Some as \<Rightarrow> with_attrs as t2) of
           Inl e \<Rightarrow> Inl e
         | Inr t3 \<Rightarrow> Inr (t3 @ RESET))))
      else Inr text)"

definition cprint ::
  "encoder \<Rightarrow> string \<Rightarrow> string option \<Rightarrow> string option \<Rightarrow> string list option \<Rightarrow> process
     \<Rightarrow> (string pyerr + unit) \<times> process" where
  "cprint enc text color on_color attrs p =
     (case colored (ANSI_COLORS_DISABLED p) text color on_color attrs of
        Inl e \<Rightarrow> (Inl e, p)
      | Inr s \<Rightarrow> py_print enc Stdout s p)"

subsection \<open>The four reporting functions\<close>

text \<open>
  Each function on a console described by \<open>enc\<close>.  \<^verbatim>\<open>if errcode:\<close> is true of a
  nonzero integer, \<^verbatim>\<open>if initial_error:\<close> of a non-empty string.  No function
  catches an exception, so the first call that raises ends it.
\<close>

definition print_info_on ::
  "encoder \<Rightarrow> string \<Rightarrow> process \<Rightarrow> (string pyerr + unit) \<times> process" where
  "print_info_on enc msg p =
     (if QUIET p then (Inr (), p)
      else if ISATTY p then cprint enc (''[INFO] '' @ msg) (Some ''green'') None None p
      else py_print enc Stdout (''[INFO] '' @ msg) p)"

definition print_warning_on ::
  "encoder \<Rightarrow> string \<Rightarrow> int \<Rightarrow> string \<Rightarrow> process \<Rightarrow> (string pyerr + unit) \<times> process" where
  "print_warning_on enc msg errcode initial_error p =
     (if QUIET p then (Inr (), p)
      else
        then_run
          (if DEBUG p then
             then_run
               (if errcode \<noteq> 0
                then py_print enc Stdout (''ERRCODE: '' @ str_int errcode) p else (Inr (), p))
               (\<lambda>p'. if initial_error \<noteq> [] then py_print enc Stderr initial_error p'
                     else (Inr (), p'))
           else (Inr (), p))
          (\<lambda>p1. if ISATTY p1 then cprint enc (''[WARNING] '' @ msg) (Some ''yellow'') None None p1
                else py_print enc Stdout (''[WARNING] '' @ msg) p1))"

definition print_critical_on ::
  "encoder \<Rightarrow> string \<Rightarrow> int \<Rightarrow> string \<Rightarrow> process \<Rightarrow> (string pyerr + unit) \<times> process" where
  "print_critical_on enc msg errcode initial_error p =
     then_run
       (if DEBUG p then
          then_run
            (if errcode \<noteq> 0
             then py_print enc Stdout (''ERRCODE: '' @ str_int errcode) p else (Inr (), p))
            (\<lambda>p'. if initial_error \<noteq> [] then py_print enc Stderr initial_error p'
                  else (Inr (), p'))
        else (Inr (), p))
       (\<lambda>p1. if ISATTY p1
             then cprint enc (''[CRITICAL] '' @ msg) (Some ''white'') (Some ''on_red'')
                    (Some [''bold'']) p1
             else py_print enc Stdout (''[CRITICAL] '' @ msg) p1)"


text \<open>
  The same four functions on a console that can encode every text, where no
  write raises.
\<close>

definition print_info :: "string \<Rightarrow> process \<Rightarrow> (string pyerr + unit) \<times> process" where
  "print_info msg p = print_info_on any_text msg p"

definition print_warning ::
  "string \<Rightarrow> int \<Rightarrow> string \<Rightarrow> process \<Rightarrow> (string pyerr + unit) \<times> process" where
  "print_warning msg errcode initial_error p = print_warning_on any_text msg errcode initial_error p"

definition print_critical ::
  "string \<Rightarrow> int \<Rightarrow> string \<Rightarrow> process \<Rightarrow> (string pyerr + unit) \<times> process" where
  "print_critical msg errcode initial_error p =
     print_critical_on any_text msg errcode initial_error p"



fun write_all ::
  "encoder \<Rightarrow> (stream \<times> string) list \<Rightarrow> process \<Rightarrow> (string pyerr + unit) \<times> process" where
  "write_all enc [] p = (Inr (), p)"
| "write_all enc ((f, text) # ls) p = then_run (py_print enc f text p) (write_all enc ls)"

section \<open>Lookups\<close>

lemma OrderedDict_getitem_absent:
  "key \<notin> set (map fst ps) \<Longrightarrow> OrderedDict_getitem ps key = Inl (KeyError key)"
  by (induction ps) auto

lemma OrderedDict_setitem_absent:
  "key \<notin> set (map fst ps) \<Longrightarrow> OrderedDict_setitem ps key v = ps @ [(key, v)]"
  by (induction ps) auto

text \<open>
  C7.  A container without a factory, looked up at a key it does not hold, raises
  \<^verbatim>\<open>KeyError(key)\<close> and is left as it was: no item is inserted, and the world is
  untouched.
\<close>

theorem getitem_no_factory_KeyError:
  assumes "default_factory self = None" and "key \<notin> set (keys self)"
  shows "DefaultOrderedDict_getitem self key w = (Inl (KeyError key), self, w)"
  using assms
  by (simp add: DefaultOrderedDict_getitem_def DefaultOrderedDict_missing_def keys_def
      OrderedDict_getitem_absent)

theorem getitem_no_factory_KeyError_witness:
  "default_factory \<lparr>items = [(1::nat, ''a'')], default_factory = None\<rparr> = None
   \<and> (2::nat) \<notin> set (keys \<lparr>items = [(1::nat, ''a'')], default_factory = None\<rparr>)
   \<and> DefaultOrderedDict_getitem \<lparr>items = [(1::nat, ''a'')], default_factory = None\<rparr> 2 (0::nat)
       = (Inl (KeyError 2), \<lparr>items = [(1::nat, ''a'')], default_factory = None\<rparr>, 0)"
  using getitem_no_factory_KeyError
    [of "\<lparr>items = [(1::nat, ''a'')], default_factory = None\<rparr>" 2 "0::nat"]
  by (simp add: keys_def)

text \<open>
  C1.  A container whose factory is \<open>F\<close>, looked up at a key it does not hold,
  calls \<open>F\<close> once, returns the value that call produced, and afterwards holds
  the key with that same value as its last item; the items it held before keep
  their places.
\<close>

theorem getitem_factory_inserts:
  assumes "default_factory self = Some F" and "key \<notin> set (keys self)" and "F w = (v, w')"
  shows "DefaultOrderedDict_getitem self key w = (Inr v, self\<lparr>items := items self @ [(key, v)]\<rparr>, w')"
  using assms
  by (simp add: DefaultOrderedDict_getitem_def DefaultOrderedDict_missing_def keys_def
      DefaultOrderedDict_setitem_def OrderedDict_getitem_absent OrderedDict_setitem_absent)

theorem getitem_factory_inserts_witness:
  "default_factory \<lparr>items = [(''alice'', [''login''])],
                    default_factory = Some (\<lambda>n::nat. ([], Suc n))\<rparr>
     = Some (\<lambda>n::nat. ([], Suc n))
   \<and> ''bob'' \<notin> set (keys \<lparr>items = [(''alice'', [''login''])],
                              default_factory = Some (\<lambda>n::nat. ([], Suc n))\<rparr>)
   \<and> (\<lambda>n::nat. ([]::string list, Suc n)) 0 = ([], 1)
   \<and> DefaultOrderedDict_getitem
         \<lparr>items = [(''alice'', [''login''])], default_factory = Some (\<lambda>n::nat. ([], Suc n))\<rparr>
         ''bob'' 0
       = (Inr [],
          \<lparr>items = [(''alice'', [''login'']), (''bob'', [])],
           default_factory = Some (\<lambda>n::nat. ([], Suc n))\<rparr>,
          1)"
  using getitem_factory_inserts
    [of "\<lparr>items = [(''alice'', [''login''])], default_factory = Some (\<lambda>n::nat. ([], Suc n))\<rparr>"
        "\<lambda>n::nat. ([], Suc n)" "''bob''" 0 "[]" 1]
  by (simp add: keys_def)

section \<open>Order of keys\<close>

lemma OrderedDict_setitem_present:
  "key \<in> set (map fst ps) \<Longrightarrow> map fst (OrderedDict_setitem ps key v) = map fst ps"
proof (induction ps)
  case Nil
  then show ?case by simp
next
  case (Cons p ps)
  obtain k x where p: "p = (k, x)" by (cases p)
  show ?case
  proof (cases "k = key")
    case True
    with p show ?thesis by simp
  next
    case False
    with Cons.prems p have "key \<in> set (map fst ps)" by auto
    with Cons.IH p False show ?thesis by simp
  qed
qed

lemma OrderedDict_setitem_keys:
  "map fst (OrderedDict_setitem ps key v) = place key (map fst ps)"
proof (cases "key \<in> set (map fst ps)")
  case True
  then show ?thesis by (simp add: OrderedDict_setitem_present)
next
  case False
  then show ?thesis by (simp add: OrderedDict_setitem_absent)
qed

lemma setitem_keys: "keys (DefaultOrderedDict_setitem d key v) = place key (keys d)"
  by (simp add: keys_def DefaultOrderedDict_setitem_def OrderedDict_setitem_keys
      del: place.simps)

lemma setitem_factory:
  "default_factory (DefaultOrderedDict_setitem d key v) = default_factory d"
  by (simp add: DefaultOrderedDict_setitem_def)

lemma OrderedDict_getitem_present:
  "key \<in> set (map fst ps) \<Longrightarrow> \<exists>v. OrderedDict_getitem ps key = Inr v"
proof (induction ps)
  case Nil
  then show ?case by simp
next
  case (Cons p ps)
  obtain k x where p: "p = (k, x)" by (cases p)
  show ?case
  proof (cases "k = key")
    case True
    with p show ?thesis by simp
  next
    case False
    with Cons.prems p have "key \<in> set (map fst ps)" by auto
    with Cons.IH p False show ?thesis by simp
  qed
qed

lemma getitem_present:
  assumes "key \<in> set (keys d)"
  shows "snd (DefaultOrderedDict_getitem d key w) = (d, w)"
proof -
  from assms obtain v where "OrderedDict_getitem (items d) key = Inr v"
    using OrderedDict_getitem_present [of key "items d"] by (auto simp: keys_def)
  then show ?thesis by (simp add: DefaultOrderedDict_getitem_def)
qed

lemma getitem_absent:
  assumes "key \<notin> set (keys d)"
  shows "snd (DefaultOrderedDict_getitem d key w) =
           (case default_factory d of
              None \<Rightarrow> (d, w)
            | Some f \<Rightarrow> (DefaultOrderedDict_setitem d key (fst (f w)), snd (f w)))"
  using assms
  by (simp add: DefaultOrderedDict_getitem_def DefaultOrderedDict_missing_def keys_def
      OrderedDict_getitem_absent split: option.splits prod.splits)

lemma step_keys:
  "keys (fst (step op (d, w))) = fold place (inserting (default_factory d \<noteq> None) op) (keys d)"
proof (cases op)
  case (SetItem k v)
  then show ?thesis by (simp add: setitem_keys del: place.simps)
next
  case (GetItem k)
  show ?thesis
  proof (cases "k \<in> set (keys d)")
    case True
    with GetItem show ?thesis by (simp add: getitem_present)
  next
    case False
    with GetItem show ?thesis
      by (cases "default_factory d") (simp_all add: getitem_absent setitem_keys)
  qed
qed

lemma step_factory: "default_factory (fst (step op (d, w))) = default_factory d"
proof (cases op)
  case (SetItem k v)
  then show ?thesis by (simp add: setitem_factory)
next
  case (GetItem k)
  show ?thesis
  proof (cases "k \<in> set (keys d)")
    case True
    with GetItem show ?thesis by (simp add: getitem_present)
  next
    case False
    with GetItem show ?thesis
      by (cases "default_factory d") (simp_all add: getitem_absent setitem_factory)
  qed
qed

lemma run_keys:
  "keys (fst (fold step ops (d, w)))
     = fold place (concat (map (inserting (default_factory d \<noteq> None)) ops)) (keys d)"
proof (induction ops arbitrary: d w)
  case Nil
  then show ?case by simp
next
  case (Cons op ops)
  obtain d' w' where s: "step op (d, w) = (d', w')" by (cases "step op (d, w)")
  have k: "keys d' = fold place (inserting (default_factory d \<noteq> None) op) (keys d)"
    using step_keys [of op d w] s by simp
  have f: "default_factory d' = default_factory d"
    using step_factory [of op d w] s by simp
  show ?case using Cons.IH [of d' w'] s k f by (simp del: place.simps)
qed

lemma fold_place_distinct: "distinct (acc @ ks) \<Longrightarrow> fold place ks acc = acc @ ks"
  by (induction ks arbitrary: acc) auto

lemma first_insertion_order_distinct: "distinct ks \<Longrightarrow> first_insertion_order ks = ks"
  using fold_place_distinct [of "[]" ks] by (simp add: first_insertion_order_def)

text \<open>
  C8.  After any sequence of assignments and lookups, iterating the container
  gives its keys in first-insertion order: the keys it started with, then each
  new key where an assignment or a factory-filled lookup first put it.
  Assigning to a key that is already present leaves the order as it is.
\<close>

theorem keys_in_first_insertion_order:
  assumes "distinct (keys d)"
  shows "keys (fst (run ops d w))
           = first_insertion_order
               (keys d @ concat (map (inserting (default_factory d \<noteq> None)) ops))
         \<and> (\<forall>k v. k \<in> set (keys d) \<longrightarrow> keys (DefaultOrderedDict_setitem d k v) = keys d)"
proof -
  have "first_insertion_order (keys d @ concat (map (inserting (default_factory d \<noteq> None)) ops))
        = fold place (concat (map (inserting (default_factory d \<noteq> None)) ops)) (keys d)"
    using first_insertion_order_distinct [OF assms]
    by (simp add: first_insertion_order_def del: place.simps)
  then show ?thesis by (simp add: run_def run_keys setitem_keys)
qed

theorem keys_in_first_insertion_order_witness:
  "distinct (keys \<lparr>items = [(''alice'', [''login''])],
                   default_factory = Some (\<lambda>n::nat. ([], Suc n))\<rparr>)
   \<and> keys (fst (run [GetItem ''bob'', SetItem ''alice'' [], SetItem ''carol'' [''x''], GetItem ''bob'']
            \<lparr>items = [(''alice'', [''login''])], default_factory = Some (\<lambda>n::nat. ([], Suc n))\<rparr>
            0))
       = [''alice'', ''bob'', ''carol'']
   \<and> ''alice'' \<in> set (keys \<lparr>items = [(''alice'', [''login''])],
                               default_factory = Some (\<lambda>n::nat. ([], Suc n))\<rparr>)
   \<and> keys (DefaultOrderedDict_setitem
             \<lparr>items = [(''alice'', [''login''])], default_factory = Some (\<lambda>n::nat. ([], Suc n))\<rparr>
             ''alice'' [])
       = [''alice'']"
  using keys_in_first_insertion_order
    [of "\<lparr>items = [(''alice'', [''login''])], default_factory = Some (\<lambda>n::nat. ([], Suc n))\<rparr>"
        "[GetItem ''bob'', SetItem ''alice'' [], SetItem ''carol'' [''x''], GetItem ''bob'']" 0]
  by (simp add: keys_def first_insertion_order_def)

section \<open>Construction\<close>

lemma OrderedDict_setitem_distinct:
  "distinct (map fst ps) \<Longrightarrow> distinct (map fst (OrderedDict_setitem ps key v))"
  by (simp add: OrderedDict_setitem_keys)

lemma OrderedDict_update_distinct:
  "distinct (map fst od) \<Longrightarrow> distinct (map fst (OrderedDict_update od ps))"
  by (induction od ps rule: OrderedDict_update.induct)
     (simp_all add: OrderedDict_setitem_distinct del: OrderedDict_setitem.simps)

lemma init_distinct:
  "DefaultOrderedDict_init args f kwargs = Inr d \<Longrightarrow> distinct (keys d)"
  by (cases "(args, kwargs)" rule: OrderedDict_init.cases)
     (auto simp: DefaultOrderedDict_init_def keys_def OrderedDict_update_distinct
        split: if_splits)

text \<open>
  C10.  Whatever the other arguments, a \<^verbatim>\<open>default_factory\<close> that is neither
  \<^verbatim>\<open>None\<close> nor callable makes the constructor raise \<^verbatim>\<open>TypeError\<close>, and no
  container is made.  With \<^verbatim>\<open>None\<close> or a callable, construction from no
  initial data or from a mapping succeeds, and the container keeps the factory.
\<close>

theorem init_checks_factory:
  "(\<not> is_None f \<and> \<not> isinstance_Callable f
      \<longrightarrow> DefaultOrderedDict_init args f kwargs = Inl TypeError)
   \<and> (is_None f \<or> isinstance_Callable f
      \<longrightarrow> DefaultOrderedDict_init [] f kwargs
            = Inr \<lparr>items = OrderedDict_update [] kwargs, default_factory = obj_factory f\<rparr>
        \<and> DefaultOrderedDict_init [PyMapping ps] f kwargs
            = Inr \<lparr>items = OrderedDict_update (OrderedDict_update [] ps) kwargs,
                   default_factory = obj_factory f\<rparr>)"
  by (simp add: DefaultOrderedDict_init_def)

theorem init_checks_factory_witness:
  "\<not> is_None (PyOther :: (string, string list, nat) pyobj)
   \<and> \<not> isinstance_Callable (PyOther :: (string, string list, nat) pyobj)
   \<and> DefaultOrderedDict_init [PyMapping [(''alice'', [''login''])]]
        (PyOther :: (string, string list, nat) pyobj) [] = Inl TypeError
   \<and> isinstance_Callable (PyCallable (\<lambda>n::nat. ([]::string list, Suc n)) :: (string, string list, nat) pyobj)
   \<and> DefaultOrderedDict_init [] (PyCallable (\<lambda>n::nat. ([]::string list, Suc n))) ([] :: (string \<times> string list) list)
       = Inr \<lparr>items = [], default_factory = Some (\<lambda>n::nat. ([], Suc n))\<rparr>
   \<and> DefaultOrderedDict_init [PyMapping [(''alice'', [''login''])]]
        (PyCallable (\<lambda>n::nat. ([]::string list, Suc n))) []
       = Inr \<lparr>items = [(''alice'', [''login''])], default_factory = Some (\<lambda>n::nat. ([], Suc n))\<rparr>
   \<and> is_None (PyNone :: (string, string list, nat) pyobj)
   \<and> DefaultOrderedDict_init [] (PyNone :: (string, string list, nat) pyobj) []
       = Inr \<lparr>items = [], default_factory = None\<rparr>"
  using init_checks_factory
      [of "PyOther :: (string, string list, nat) pyobj" "[PyMapping [(''alice'', [''login''])]]" "[]" "[]"]
    init_checks_factory
      [of "PyCallable (\<lambda>n::nat. ([]::string list, Suc n)) :: (string, string list, nat) pyobj"
          "[]" "[]" "[(''alice'', [''login''])]"]
    init_checks_factory
      [of "PyNone :: (string, string list, nat) pyobj" "[]" "[]" "[]"]
  by simp

section \<open>Copying and pickling\<close>

lemma dunder_copy_raises: "DefaultOrderedDict_dunder_copy self = Inl TypeError"
  by (simp add: DefaultOrderedDict_dunder_copy_def DefaultOrderedDict_init_def)

text \<open>
  C3.  \<^verbatim>\<open>copy()\<close> does not return a container.  \<^verbatim>\<open>__copy__\<close> hands the factory
  and the container to the constructor as two positional arguments; the
  constructor takes the factory by keyword only and passes both on to
  \<^verbatim>\<open>OrderedDict.__init__\<close>, which accepts one at most.  For the container
  \<^verbatim>\<open>DefaultOrderedDict({'alice': ['login']}, default_factory=list)\<close> the call
  raises \<^verbatim>\<open>TypeError\<close>.
\<close>

theorem copy_raises_TypeError:
  "DefaultOrderedDict_copy
     \<lparr>items = [(''alice'', [''login''])], default_factory = Some (\<lambda>n::nat. ([], Suc n))\<rparr>
   = Inl TypeError"
  by (simp add: DefaultOrderedDict_copy_def DefaultOrderedDict_dunder_copy_def
      DefaultOrderedDict_init_def)

lemma copy_always_raises: "DefaultOrderedDict_copy self = Inl TypeError"
  by (simp add: DefaultOrderedDict_copy_def dunder_copy_raises)

lemma reconstruct_with_factory:
  "default_factory self = Some f \<Longrightarrow> reconstruct (DefaultOrderedDict_reduce self) = Inl TypeError"
  by (simp add: reconstruct_def DefaultOrderedDict_reduce_def DefaultOrderedDict_init_def)

lemma store_items_append:
  "distinct (map fst ps) \<Longrightarrow> set (map fst ps) \<inter> set (map fst (items obj)) = {}
   \<Longrightarrow> store_items obj ps = obj\<lparr>items := items obj @ ps\<rparr>"
proof (induction ps arbitrary: obj)
  case Nil
  then show ?case by simp
next
  case (Cons p ps)
  obtain k v where p: "p = (k, v)" by (cases p)
  from Cons.prems p have absent: "k \<notin> set (map fst (items obj))" by auto
  have step: "DefaultOrderedDict_setitem obj k v = obj\<lparr>items := items obj @ [(k, v)]\<rparr>"
    by (simp add: DefaultOrderedDict_setitem_def OrderedDict_setitem_absent [OF absent])
  from Cons.prems p
  have "store_items (obj\<lparr>items := items obj @ [(k, v)]\<rparr>) ps
        = (obj\<lparr>items := items obj @ [(k, v)]\<rparr>)\<lparr>items := items (obj\<lparr>items := items obj @ [(k, v)]\<rparr>) @ ps\<rparr>"
    by (intro Cons.IH) auto
  with p step show ?case by simp
qed

lemma reconstruct_without_factory:
  "default_factory self = None \<Longrightarrow> distinct (keys self)
   \<Longrightarrow> reconstruct (DefaultOrderedDict_reduce self) = Inr self"
  by (simp add: reconstruct_def DefaultOrderedDict_reduce_def DefaultOrderedDict_init_def
      store_items_append keys_def)

lemma pickle_roundtrip_C_Pickler: "pickle_roundtrip C_Pickler self = Inl PicklingError"
  by (simp add: pickle_roundtrip_def DefaultOrderedDict_reduce_def)

lemma pickle_roundtrip_with_factory:
  "default_factory self = Some f \<Longrightarrow> pickle_roundtrip Python_Pickler self = Inl TypeError"
  by (simp add: pickle_roundtrip_def reconstruct_with_factory)

lemma pickle_roundtrip_without_factory:
  "default_factory self = None \<Longrightarrow> distinct (keys self)
   \<Longrightarrow> pickle_roundtrip Python_Pickler self = Inr self"
  by (simp add: pickle_roundtrip_def reconstruct_without_factory)

text \<open>
  C4.  Serializing through \<^verbatim>\<open>__reduce__\<close> and rebuilding does not give back the
  keys and values of a container that has a factory.  \<^verbatim>\<open>__reduce__\<close> puts the
  factory into \<^verbatim>\<open>args\<close>, the rebuilding call passes it as the one positional
  argument, and \<^verbatim>\<open>OrderedDict.__init__\<close> takes it for the initial data: for
  \<^verbatim>\<open>DefaultOrderedDict({'alice': ['login']}, default_factory=list)\<close> rebuilding
  raises \<^verbatim>\<open>TypeError\<close>.  (With the default C pickler, pickling itself has
  already raised \<^verbatim>\<open>PicklingError\<close>, whatever the container.)
\<close>

theorem reduce_roundtrip_raises_TypeError:
  "reconstruct (DefaultOrderedDict_reduce
     \<lparr>items = [(''alice'', [''login''])], default_factory = Some (\<lambda>n::nat. ([], Suc n))\<rparr>)
   = Inl TypeError"
  by (simp add: reconstruct_def DefaultOrderedDict_reduce_def DefaultOrderedDict_init_def)

section \<open>Defaults of the error mapping\<close>

lemma dict_getitem_setdefault:
  "dict_getitem (dict_setdefault ps key d) k =
     (if k = key then (case dict_getitem ps key of Inl e \<Rightarrow> Inr d | Inr v \<Rightarrow> Inr v)
      else dict_getitem ps k)"
  by (induction ps) auto

text \<open>
  C6.  Whatever message and whatever mapping (or none) the caller gives, the
  error's mapping holds \<^verbatim>\<open>errcode\<close> and \<^verbatim>\<open>initial_error\<close>: the caller's value
  where the caller gave one, otherwise \<open>0\<close> and the empty string.  Every other
  key reads as it did in the caller's mapping.  With no mapping the result is
  exactly \<^verbatim>\<open>{errcode: 0, initial_error: ''}\<close>; with \<^verbatim>\<open>{errcode: 5}\<close> it is
  \<^verbatim>\<open>{errcode: 5, initial_error: ''}\<close>.
\<close>

theorem USBRipError_errors_defaulted:
  "dict_getitem (errors (USBRipError_init msg errs)) ''errcode''
     = (case dict_getitem (case errs of None \<Rightarrow> [] | Some m \<Rightarrow> m) ''errcode'' of
          Inl e \<Rightarrow> Inr (PyInt 0) | Inr v \<Rightarrow> Inr v)
   \<and> dict_getitem (errors (USBRipError_init msg errs)) ''initial_error''
     = (case dict_getitem (case errs of None \<Rightarrow> [] | Some m \<Rightarrow> m) ''initial_error'' of
          Inl e \<Rightarrow> Inr (PyStr []) | Inr v \<Rightarrow> Inr v)
   \<and> (\<forall>k. k \<noteq> ''errcode'' \<and> k \<noteq> ''initial_error''
          \<longrightarrow> dict_getitem (errors (USBRipError_init msg errs)) k
              = dict_getitem (case errs of None \<Rightarrow> [] | Some m \<Rightarrow> m) k)
   \<and> message (USBRipError_init msg errs) = msg
   \<and> errors (USBRipError_init msg None) = [(''errcode'', PyInt 0), (''initial_error'', PyStr [])]
   \<and> errors (USBRipError_init msg (Some [(''errcode'', PyInt 5)]))
       = [(''errcode'', PyInt 5), (''initial_error'', PyStr [])]"
  by (cases errs) (simp_all add: USBRipError_init_def dict_getitem_setdefault)

theorem USBRipError_errors_defaulted_witness:
  "''path'' \<noteq> ''errcode'' \<and> ''path'' \<noteq> ''initial_error''
   \<and> dict_getitem (errors (USBRipError_init ''denied''
         (Some [(''path'', PyStr ''/tmp''), (''errcode'', PyInt 5 :: unit pyval)]))) ''path''
       = Inr (PyStr ''/tmp'')
   \<and> dict_getitem (errors (USBRipError_init ''denied''
         (Some [(''path'', PyStr ''/tmp''), (''errcode'', PyInt 5 :: unit pyval)]))) ''errcode''
       = Inr (PyInt 5)
   \<and> dict_getitem (errors (USBRipError_init ''denied''
         (Some [(''path'', PyStr ''/tmp''), (''errcode'', PyInt 5 :: unit pyval)]))) ''initial_error''
       = Inr (PyStr [])"
proof -
  note t = USBRipError_errors_defaulted
    [of "''denied''" "Some [(''path'', PyStr ''/tmp''), (''errcode'', PyInt 5 :: unit pyval)]"]
  have name1: "''path'' \<noteq> ''errcode''" and name2: "''path'' \<noteq> ''initial_error''"
    by simp_all
  from t [THEN conjunct2, THEN conjunct2, THEN conjunct1, THEN spec, of "''path''"] name1 name2
  have extra: "dict_getitem (errors (USBRipError_init ''denied''
         (Some [(''path'', PyStr ''/tmp''), (''errcode'', PyInt 5 :: unit pyval)]))) ''path''
       = Inr (PyStr ''/tmp'')"
    by simp
  from t [THEN conjunct1]
  have code: "dict_getitem (errors (USBRipError_init ''denied''
         (Some [(''path'', PyStr ''/tmp''), (''errcode'', PyInt 5 :: unit pyval)]))) ''errcode''
       = Inr (PyInt 5)"
    by simp
  from t [THEN conjunct2, THEN conjunct1]
  have cause: "dict_getitem (errors (USBRipError_init ''denied''
         (Some [(''path'', PyStr ''/tmp''), (''errcode'', PyInt 5 :: unit pyval)]))) ''initial_error''
       = Inr (PyStr [])"
    by simp
  from name1 name2 extra code cause show ?thesis by (intro conjI)
qed

section \<open>Reporting\<close>

lemma colored_green:
  "colored d text (Some ''green'') None None = Inr (if d then text else fmt_str 32 text @ RESET)"
  by (simp add: colored_def COLORS_def)

lemma colored_yellow:
  "colored d text (Some ''yellow'') None None = Inr (if d then text else fmt_str 33 text @ RESET)"
  by (simp add: colored_def COLORS_def)


lemma colored_white_on_red_bold:
  "colored d text (Some ''white'') (Some ''on_red'') (Some [''bold''])
     = Inr (if d then text else fmt_str 1 (fmt_str 41 (fmt_str 37 text)) @ RESET)"
  by (simp add: colored_def COLORS_def HIGHLIGHTS_def ATTRIBUTES_def)


lemma print_info_result:
  "print_info msg p =
     (Inr (),
      if QUIET p then p
      else p\<lparr>console := console p @
             [(Stdout, if ISATTY p \<and> \<not> ANSI_COLORS_DISABLED p
                       then fmt_str 32 (''[INFO] '' @ msg) @ RESET
                       else ''[INFO] '' @ msg)]\<rparr>)"
  by (simp add: print_info_def print_info_on_def cprint_def colored_green py_print_def
      any_text_def)

lemma print_warning_result:
  "print_warning msg errcode initial_error p =
     (Inr (),
      if QUIET p then p
      else p\<lparr>console := console p @
             (if DEBUG p
              then (if errcode \<noteq> 0 then [(Stdout, ''ERRCODE: '' @ str_int errcode)] else []) @
                   (if initial_error \<noteq> [] then [(Stderr, initial_error)] else [])
              else []) @
             [(Stdout, if ISATTY p \<and> \<not> ANSI_COLORS_DISABLED p
                       then fmt_str 33 (''[WARNING] '' @ msg) @ RESET
                       else ''[WARNING] '' @ msg)]\<rparr>)"
  by (simp add: print_warning_def print_warning_on_def cprint_def colored_yellow py_print_def
      any_text_def then_run_def)

lemma print_critical_result:
  "print_critical msg errcode initial_error p =
     (Inr (),
      p\<lparr>console := console p @
             (if DEBUG p
              then (if errcode \<noteq> 0 then [(Stdout, ''ERRCODE: '' @ str_int errcode)] else []) @
                   (if initial_error \<noteq> [] then [(Stderr, initial_error)] else [])
              else []) @
             [(Stdout, if ISATTY p \<and> \<not> ANSI_COLORS_DISABLED p
                       then fmt_str 1 (fmt_str 41 (fmt_str 37 (''[CRITICAL] '' @ msg))) @ RESET
                       else ''[CRITICAL] '' @ msg)]\<rparr>)"
  by (simp add: print_critical_def print_critical_on_def cprint_def colored_white_on_red_bold
      py_print_def any_text_def then_run_def)


text \<open>
  C2 as stated does not hold: the error-code line is not written to the error
  stream.  With debug-mode on, \<^verbatim>\<open>print_warning('x', errcode=7,
  initial_error='disk full')\<close> writes \<^verbatim>\<open>ERRCODE: 7\<close> to the main output
  stream; only the initial-error line goes to the error stream.  With quiet-mode
  on as well, the same call writes nothing at all.
\<close>

theorem warning_errcode_line_on_stdout:
  "console (snd (print_warning ''x'' 7 ''disk full''
      \<lparr>QUIET = False, DEBUG = True, ISATTY = False, ANSI_COLORS_DISABLED = False, console = []\<rparr>))
     = [(Stdout, ''ERRCODE: 7''), (Stderr, ''disk full''), (Stdout, ''[WARNING] x'')]
   \<and> fst (hd (console (snd (print_warning ''x'' 7 ''disk full''
      \<lparr>QUIET = False, DEBUG = True, ISATTY = False, ANSI_COLORS_DISABLED = False,
       console = []\<rparr>)))) \<noteq> Stderr
   \<and> console (snd (print_warning ''x'' 7 ''disk full''
      \<lparr>QUIET = True, DEBUG = True, ISATTY = False, ANSI_COLORS_DISABLED = False, console = []\<rparr>))
     = []"
  by (simp add: print_warning_result str_int_def str_nat.simps digit_def)

text \<open>
  C2, amended.  With debug-mode on, \<^verbatim>\<open>print_critical\<close>, and \<^verbatim>\<open>print_warning\<close>
  when quiet-mode is off, write in this order: the line \<^verbatim>\<open>ERRCODE: n\<close> on the
  main output stream when the error code \<open>n\<close> is nonzero, the initial error on
  the error stream when it is non-empty, and then the styled message on the main
  output stream.  A detail line whose value is the default is left out.
\<close>

theorem debug_details_before_message:
  assumes "DEBUG p"
  shows "(\<not> QUIET p \<longrightarrow>
            print_warning msg errcode initial_error p =
              (Inr (),
               p\<lparr>console := console p @
                 (if errcode \<noteq> 0 then [(Stdout, ''ERRCODE: '' @ str_int errcode)] else []) @
                 (if initial_error \<noteq> [] then [(Stderr, initial_error)] else []) @
                 [(Stdout, if ISATTY p \<and> \<not> ANSI_COLORS_DISABLED p
                           then fmt_str 33 (''[WARNING] '' @ msg) @ RESET
                           else ''[WARNING] '' @ msg)]\<rparr>))
         \<and> print_critical msg errcode initial_error p =
              (Inr (),
               p\<lparr>console := console p @
                 (if errcode \<noteq> 0 then [(Stdout, ''ERRCODE: '' @ str_int errcode)] else []) @
                 (if initial_error \<noteq> [] then [(Stderr, initial_error)] else []) @
                 [(Stdout, if ISATTY p \<and> \<not> ANSI_COLORS_DISABLED p
                           then fmt_str 1 (fmt_str 41 (fmt_str 37 (''[CRITICAL] '' @ msg))) @ RESET
                           else ''[CRITICAL] '' @ msg)]\<rparr>)"
  using assms by (simp add: print_warning_result print_critical_result)

theorem debug_details_before_message_witness:
  "DEBUG \<lparr>QUIET = False, DEBUG = True, ISATTY = False, ANSI_COLORS_DISABLED = False, console = []\<rparr>
   \<and> \<not> QUIET \<lparr>QUIET = False, DEBUG = True, ISATTY = False, ANSI_COLORS_DISABLED = False,
               console = []\<rparr>
   \<and> print_warning ''x'' 7 ''disk full''
        \<lparr>QUIET = False, DEBUG = True, ISATTY = False, ANSI_COLORS_DISABLED = False, console = []\<rparr>
       = (Inr (),
          \<lparr>QUIET = False, DEBUG = True, ISATTY = False, ANSI_COLORS_DISABLED = False,
           console = [(Stdout, ''ERRCODE: 7''), (Stderr, ''disk full''), (Stdout, ''[WARNING] x'')]\<rparr>)
   \<and> print_critical ''x'' 7 ''disk full''
        \<lparr>QUIET = False, DEBUG = True, ISATTY = False, ANSI_COLORS_DISABLED = False, console = []\<rparr>
       = (Inr (),
          \<lparr>QUIET = False, DEBUG = True, ISATTY = False, ANSI_COLORS_DISABLED = False,
           console = [(Stdout, ''ERRCODE: 7''), (Stderr, ''disk full''), (Stdout, ''[CRITICAL] x'')]\<rparr>)"
  using debug_details_before_message
    [of "\<lparr>QUIET = False, DEBUG = True, ISATTY = False, ANSI_COLORS_DISABLED = False, console = []\<rparr>"
        "''x''" 7 "''disk full''"]
  by (simp add: str_int_def str_nat.simps digit_def)

text \<open>
  C5.  With quiet-mode on, \<^verbatim>\<open>print_info\<close> and \<^verbatim>\<open>print_warning\<close> return with the
  console exactly as it was, whatever the message and the details.
  \<^verbatim>\<open>print_critical\<close> still writes: its debug details, if any, and its message,
  so the console is longer afterwards.
\<close>

theorem quiet_suppresses_info_and_warning:
  assumes "QUIET p"
  shows "print_info msg p = (Inr (), p)
         \<and> print_warning msg errcode initial_error p = (Inr (), p)
         \<and> print_critical msg errcode initial_error p =
              (Inr (),
               p\<lparr>console := console p @
                 (if DEBUG p
                  then (if errcode \<noteq> 0 then [(Stdout, ''ERRCODE: '' @ str_int errcode)] else []) @
                       (if initial_error \<noteq> [] then [(Stderr, initial_error)] else [])
                  else []) @
                 [(Stdout, if ISATTY p \<and> \<not> ANSI_COLORS_DISABLED p
                           then fmt_str 1 (fmt_str 41 (fmt_str 37 (''[CRITICAL] '' @ msg))) @ RESET
                           else ''[CRITICAL] '' @ msg)]\<rparr>)
         \<and> console (snd (print_critical msg errcode initial_error p)) \<noteq> console p"
  using assms by (simp add: print_info_result print_warning_result print_critical_result)

theorem quiet_suppresses_info_and_warning_witness:
  "QUIET \<lparr>QUIET = True, DEBUG = False, ISATTY = False, ANSI_COLORS_DISABLED = False, console = []\<rparr>
   \<and> print_info ''x''
        \<lparr>QUIET = True, DEBUG = False, ISATTY = False, ANSI_COLORS_DISABLED = False, console = []\<rparr>
       = (Inr (),
          \<lparr>QUIET = True, DEBUG = False, ISATTY = False, ANSI_COLORS_DISABLED = False, console = []\<rparr>)
   \<and> print_warning ''x'' 7 ''disk full''
        \<lparr>QUIET = True, DEBUG = False, ISATTY = False, ANSI_COLORS_DISABLED = False, console = []\<rparr>
       = (Inr (),
          \<lparr>QUIET = True, DEBUG = False, ISATTY = False, ANSI_COLORS_DISABLED = False, console = []\<rparr>)
   \<and> print_critical ''x'' 7 ''disk full''
        \<lparr>QUIET = True, DEBUG = False, ISATTY = False, ANSI_COLORS_DISABLED = False, console = []\<rparr>
       = (Inr (),
          \<lparr>QUIET = True, DEBUG = False, ISATTY = False, ANSI_COLORS_DISABLED = False,
           console = [(Stdout, ''[CRITICAL] x'')]\<rparr>)"
  using quiet_suppresses_info_and_warning
    [of "\<lparr>QUIET = True, DEBUG = False, ISATTY = False, ANSI_COLORS_DISABLED = False, console = []\<rparr>"
        "''x''" 7 "''disk full''"]
  by simp

subsection \<open>Writes that raise\<close>

lemma write_all_append:
  "write_all enc (xs @ ys) p = then_run (write_all enc xs p) (write_all enc ys)"
proof (induction xs arbitrary: p)
  case Nil
  then show ?case by (simp add: then_run_def)
next
  case (Cons x xs)
  obtain f t where x: "x = (f, t)" by (cases x)
  show ?case
  proof (cases "enc f t")
    case True
    with x Cons.IH show ?thesis by (simp add: then_run_def py_print_def)
  next
    case False
    with x show ?thesis by (simp add: then_run_def py_print_def)
  qed
qed
















end
